theory Spec2Isabelle
  imports Complex_Main
begin

section \<open>JavaScript values\<close>

text \<open>
  The library \<^verbatim>\<open>js/lib/pyramid.js\<close> is untyped JavaScript, and several of its branches
  test arguments for truthiness, so the arguments are modelled as tagged values.
  Numbers are the extended reals of JavaScript without rounding and without a signed
  zero: a finite number is an exact real, and the three non-finite values are kept
  because a division by zero produces them instead of failing.
  Arrays live in a store and are passed by reference (\<open>JArr\<close>); a function value is
  opaque (\<open>JFun\<close>).
\<close>

type_synonym ref = nat

datatype jsnum = Fin real | PInf | NInf | NaN

datatype jsval =
    Undefined
  | Null
  | JBool bool
  | JNum jsnum
  | JStr string
  | JArr ref
  | JFun nat

datatype error = TypeError

datatype outcome = Return | Throw error

fun truthy :: "jsval \<Rightarrow> bool" where
  "truthy Undefined = False"
| "truthy Null = False"
| "truthy (JBool b) = b"
| "truthy (JNum (Fin r)) = (r \<noteq> 0)"
| "truthy (JNum PInf) = True"
| "truthy (JNum NInf) = True"
| "truthy (JNum NaN) = False"
| "truthy (JStr s) = (s \<noteq> [])"
| "truthy (JArr r) = True"
| "truthy (JFun f) = True"

definition falsy :: "jsval \<Rightarrow> bool" where
  "falsy v = (\<not> truthy v)"

subsection \<open>Arithmetic on numbers\<close>

fun js_neg :: "jsnum \<Rightarrow> jsnum" where
  "js_neg (Fin a) = Fin (- a)"
| "js_neg PInf = NInf"
| "js_neg NInf = PInf"
| "js_neg NaN = NaN"

fun js_add :: "jsnum \<Rightarrow> jsnum \<Rightarrow> jsnum" where
  "js_add (Fin a) (Fin b) = Fin (a + b)"
| "js_add NaN b = NaN"
| "js_add a NaN = NaN"
| "js_add PInf NInf = NaN"
| "js_add NInf PInf = NaN"
| "js_add PInf b = PInf"
| "js_add a PInf = PInf"
| "js_add NInf b = NInf"
| "js_add a NInf = NInf"

definition js_sub :: "jsnum \<Rightarrow> jsnum \<Rightarrow> jsnum" where
  "js_sub a b = js_add a (js_neg b)"

text \<open>The sign of a number: \<open>1\<close>, \<open>0\<close> or \<open>-1\<close>; \<open>NaN\<close> has none and is handled first.\<close>

fun js_sign :: "jsnum \<Rightarrow> int" where
  "js_sign (Fin a) = (if a = 0 then 0 else if 0 < a then 1 else - 1)"
| "js_sign PInf = 1"
| "js_sign NInf = - 1"
| "js_sign NaN = 0"

definition signed_inf :: "int \<Rightarrow> jsnum" where
  "signed_inf s = (if s = 0 then NaN else if 0 < s then PInf else NInf)"

fun js_mul :: "jsnum \<Rightarrow> jsnum \<Rightarrow> jsnum" where
  "js_mul (Fin a) (Fin b) = Fin (a * b)"
| "js_mul NaN b = NaN"
| "js_mul a NaN = NaN"
| "js_mul a b = signed_inf (js_sign a * js_sign b)"

fun js_div :: "jsnum \<Rightarrow> jsnum \<Rightarrow> jsnum" where
  "js_div (Fin a) (Fin b) =
     (if b = 0 then signed_inf (js_sign (Fin a)) else Fin (a / b))"
| "js_div NaN b = NaN"
| "js_div a NaN = NaN"
| "js_div (Fin a) PInf = Fin 0"
| "js_div (Fin a) NInf = Fin 0"
| "js_div PInf (Fin b) = (if b < 0 then NInf else PInf)"
| "js_div NInf (Fin b) = (if b < 0 then PInf else NInf)"
| "js_div a b = NaN"

subsection \<open>The browser and the store\<close>

text \<open>
  What the library reads from its surroundings is a parameter:
  \<open>computedStyle\<close> maps the id of an element of the document to the values of the
  \<^verbatim>\<open>height\<close> and \<^verbatim>\<open>width\<close> properties of its computed style (\<open>None\<close>: the document
  has no element with that id), and \<open>stringToNumber\<close> is the conversion of a string
  to a number that the language applies to the operands of \<^verbatim>\<open>-\<close>, \<^verbatim>\<open>*\<close> and \<^verbatim>\<open>/\<close>.
\<close>

record browser =
  computedStyle :: "string \<Rightarrow> (string \<times> string) option"
  stringToNumber :: "string \<Rightarrow> jsnum"

text \<open>
  The store gives every array reference its current contents. The arrays of the
  library are arrays of strings (the labels of the slices, top down).
\<close>

type_synonym store = "ref \<Rightarrow> string list"

text \<open>\<^verbatim>\<open>Array.prototype.join\<close> with the default separator, for an array of strings.\<close>

fun join_comma :: "string list \<Rightarrow> string" where
  "join_comma [] = []"
| "join_comma [s] = s"
| "join_comma (s # t # ss) = s @ '','' @ join_comma (t # ss)"

text \<open>
  The conversion of a value to a number (\<^verbatim>\<open>ToNumber\<close>). An array is first
  converted to the string that joins its elements; the source text of a function is
  never a numeric literal.
\<close>

fun ToNumber :: "browser \<Rightarrow> store \<Rightarrow> jsval \<Rightarrow> jsnum" where
  "ToNumber br h Undefined = NaN"
| "ToNumber br h Null = Fin 0"
| "ToNumber br h (JBool b) = (if b then Fin 1 else Fin 0)"
| "ToNumber br h (JNum n) = n"
| "ToNumber br h (JStr s) = stringToNumber br s"
| "ToNumber br h (JArr r) = stringToNumber br (join_comma (h r))"
| "ToNumber br h (JFun f) = NaN"

text \<open>
  \<^verbatim>\<open>String.prototype.split\<close> with a separator string: the pieces between the
  occurrences of the separator, from left to right. \<open>acc\<close> holds the current piece,
  reversed.
\<close>

fun split_from :: "string \<Rightarrow> string \<Rightarrow> string \<Rightarrow> string list" where
  "split_from sep acc [] = [rev acc]"
| "split_from sep acc (c # cs) =
     (if sep \<noteq> [] \<and> take (length sep) (c # cs) = sep
      then rev acc # split_from sep [] (drop (length sep - 1) cs)
      else split_from sep (c # acc) cs)"

definition string_split :: "string \<Rightarrow> string \<Rightarrow> string list" where
  "string_split sep s = (if sep = [] then map (\<lambda>c. [c]) s else split_from sep [] s)"


section \<open>The state of a pyramid\<close>

text \<open>
  The fields that the constructor of \<^verbatim>\<open>js/lib/pyramid.js\<close> creates. The sides of the
  margins and the configuration fields hold whatever value a setter stored, so they
  are \<open>jsval\<close>; the inner sizes and the chart are absent until \<^verbatim>\<open>setDimensions\<close> runs.
\<close>

record margins =
  margin_top :: jsval
  margin_bottom :: jsval
  margin_left :: jsval
  margin_right :: jsval

record chart =
  chart_width :: jsnum
  chart_height :: jsnum

record dimensions =
  outerHeight :: jsval
  outerWidth :: jsval
  margins :: margins
  innerHeight :: "jsnum option"
  innerWidth :: "jsnum option"
  chart :: "chart option"

record pyramid =
  data :: jsval
  baseToHeightRatio :: jsval
  parentContainer :: jsval
  dimensions :: dimensions
  className :: jsval
  autoFit :: jsval
  colorScale :: jsval

subsection \<open>What a render draws\<close>

text \<open>
  The scene is recorded at the level of the calls made to the drawing library, which
  are taken to return normally (the selectors are well formed and the parent
  container is in the document): every render appends one \<^verbatim>\<open>svg\<close> element to the
  selection of the parent container, with one group that holds the paths and the
  text labels. The \<^verbatim>\<open>d\<close> attribute of a path is kept
  as the list of the points of the closed line, the \<^verbatim>\<open>transform\<close> of the group as the
  pair of its two offsets, and the \<^verbatim>\<open>fill\<close> of a path as the colour scale applied to
  the label (\<open>None\<close> while the attribute is not set).
\<close>

record point =
  pt_x :: jsnum
  pt_y :: jsnum

record path =
  path_d :: "point list"
  path_class :: string
  path_fill :: "(nat \<times> string) option"

record label =
  label_text :: string
  label_x :: jsnum
  label_y :: jsnum
  label_class :: string

record canvas =
  canvas_width :: "jsnum option"
  canvas_height :: "jsnum option"
  canvas_translate :: "jsval \<times> jsval"
  canvas_class :: jsval
  canvas_paths :: "path list"
  canvas_labels :: "label list"

record svg =
  svg_container :: jsval
  svg_class :: jsval
  svg_width :: jsval
  svg_height :: jsval
  svg_canvas :: canvas

text \<open>
  The mutable surroundings of a pyramid: the arrays, the lines written with
  \<^verbatim>\<open>console.error\<close> (oldest first) and the \<^verbatim>\<open>svg\<close> elements appended to the document
  (oldest first).
\<close>

record world =
  heap :: store
  console :: "string list"
  svgs :: "svg list"

definition console_error :: "string \<Rightarrow> world \<Rightarrow> world" where
  "console_error msg w = w\<lparr>console := console w @ [msg]\<rparr>"

section \<open>The constructor\<close>

text \<open>The default colour scale, \<^verbatim>\<open>d3.scale.category20()\<close>.\<close>

definition category20 :: jsval where
  "category20 = JFun 0"

text \<open>
  \<^verbatim>\<open>parentContainer.split("#")[1]\<close>, as \<^verbatim>\<open>document.getElementById\<close> receives it: an
  index past the pieces reads \<^verbatim>\<open>undefined\<close>, which the lookup converts to a string.
\<close>

definition container_id :: "string \<Rightarrow> string" where
  "container_id sel =
     (case string_split ''#'' sel of a # b # rest \<Rightarrow> b | _ \<Rightarrow> ''undefined'')"

text \<open>\<^verbatim>\<open>value.split("px")[0]\<close> of a property value of the computed style.\<close>

definition strip_px :: "string \<Rightarrow> jsval" where
  "strip_px v = (case string_split ''px'' v of [] \<Rightarrow> Undefined | a # rest \<Rightarrow> JStr a)"

text \<open>
  The loose comparison \<^verbatim>\<open>autoFit == false\<close>: \<^verbatim>\<open>undefined\<close> and \<^verbatim>\<open>null\<close> equal only each
  other, every other value is compared as a number with \<open>0\<close>.
\<close>

fun loose_eq_false :: "browser \<Rightarrow> store \<Rightarrow> jsval \<Rightarrow> bool" where
  "loose_eq_false br h Undefined = False"
| "loose_eq_false br h Null = False"
| "loose_eq_false br h v = (ToNumber br h v = Fin 0)"

definition default_margins :: margins where
  "default_margins =
     \<lparr>margin_top = JNum (Fin 25), margin_bottom = JNum (Fin 25),
      margin_left = JNum (Fin 25), margin_right = JNum (Fin 25)\<rparr>"

text \<open>
  \<^verbatim>\<open>function Pyramid(data, parentContainer, className, autoFit, colorScale)\<close>.
  Only a string has a \<^verbatim>\<open>split\<close> method: on \<^verbatim>\<open>undefined\<close> and \<^verbatim>\<open>null\<close> the property read
  throws, on the other values the call of the missing method does; and
  \<^verbatim>\<open>window.getComputedStyle\<close> throws when its argument is not an element. The lines
  logged before the exception stay in the console.
\<close>

definition Pyramid ::
  "browser \<Rightarrow> jsval \<Rightarrow> jsval \<Rightarrow> jsval \<Rightarrow> jsval \<Rightarrow> jsval \<Rightarrow> world \<Rightarrow> (error + pyramid) \<times> world"
where
  "Pyramid br data_arg parentContainer_arg className_arg autoFit_arg colorScale_arg w =
     (let w1 = (if \<not> truthy data_arg
                then console_error ''We have no data to put into the pyramid!'' w else w);
          w2 = (if \<not> truthy parentContainer_arg
                then console_error ''A parent element has not been specified!'' w1 else w1)
      in case parentContainer_arg of
           JStr sel \<Rightarrow>
             (case computedStyle br (container_id sel) of
                None \<Rightarrow> (Inl TypeError, w2)
              | Some (height_value, width_value) \<Rightarrow>
                  (Inr \<lparr>data = data_arg,
                        baseToHeightRatio = JNum (Fin (3 / 4)),
                        parentContainer =
                          (if truthy parentContainer_arg then parentContainer_arg else Null),
                        dimensions =
                          \<lparr>outerHeight = strip_px height_value,
                           outerWidth = strip_px width_value,
                           margins = default_margins,
                           innerHeight = None, innerWidth = None, chart = None\<rparr>,
                        className =
                          (if truthy className_arg then className_arg else JStr ''pyramid''),
                        autoFit =
                          (if loose_eq_false br (heap w2) autoFit_arg
                           then JBool False else JBool True),
                        colorScale =
                          (if truthy colorScale_arg then colorScale_arg else category20)\<rparr>,
                   w2))
         | _ \<Rightarrow> (Inl TypeError, w2))"

section \<open>The setters\<close>

text \<open>
  Each of the four simple setters writes one line to the console when its argument
  is not truthy and then assigns the argument to the field.
\<close>

definition setColorScale :: "jsval \<Rightarrow> pyramid \<times> world \<Rightarrow> pyramid \<times> world" where
  "setColorScale colorScale_arg s =
     (case s of (self, w) \<Rightarrow>
        (self\<lparr>colorScale := colorScale_arg\<rparr>,
         if \<not> truthy colorScale_arg
         then console_error ''No color scale has been specified!'' w else w))"

definition setParentContainer :: "jsval \<Rightarrow> pyramid \<times> world \<Rightarrow> pyramid \<times> world" where
  "setParentContainer parentContainer_arg s =
     (case s of (self, w) \<Rightarrow>
        (self\<lparr>parentContainer := parentContainer_arg\<rparr>,
         if \<not> truthy parentContainer_arg
         then console_error ''No parent container element has been specified!'' w else w))"

definition setClassName :: "jsval \<Rightarrow> pyramid \<times> world \<Rightarrow> pyramid \<times> world" where
  "setClassName className_arg s =
     (case s of (self, w) \<Rightarrow>
        (self\<lparr>className := className_arg\<rparr>,
         if \<not> truthy className_arg
         then console_error ''No class name has been specified!'' w else w))"

definition setRelativeWidth :: "jsval \<Rightarrow> pyramid \<times> world \<Rightarrow> pyramid \<times> world" where
  "setRelativeWidth ratio s =
     (case s of (self, w) \<Rightarrow>
        (self\<lparr>baseToHeightRatio := ratio\<rparr>,
         if \<not> truthy ratio
         then console_error ''No relative width has been specified!'' w else w))"

text \<open>The function stored at \<^verbatim>\<open>Pyramid.prototype.autoFit\<close>.\<close>

definition autoFit_method :: "jsval \<Rightarrow> pyramid \<times> world \<Rightarrow> pyramid \<times> world" where
  "autoFit_method autoFit_arg s =
     (case s of (self, w) \<Rightarrow> (self\<lparr>autoFit := autoFit_arg\<rparr>, w))"

subsection \<open>Margins\<close>

text \<open>
  The argument of \<^verbatim>\<open>setMargins\<close> is either an object with some of the four sides, or
  any other value. Reading a side of \<^verbatim>\<open>undefined\<close> or \<^verbatim>\<open>null\<close> throws; the other values
  have no such property, and a side that an object does not have reads \<^verbatim>\<open>undefined\<close>.
\<close>

datatype margins_arg = MVal jsval | MObj "string \<Rightarrow> jsval option"

fun arg_truthy :: "margins_arg \<Rightarrow> bool" where
  "arg_truthy (MVal v) = truthy v"
| "arg_truthy (MObj sides) = True"

fun nullish :: "margins_arg \<Rightarrow> bool" where
  "nullish (MVal Undefined) = True"
| "nullish (MVal Null) = True"
| "nullish a = False"

fun side :: "margins_arg \<Rightarrow> string \<Rightarrow> jsval" where
  "side (MVal v) name = Undefined"
| "side (MObj sides) name = (case sides name of None \<Rightarrow> Undefined | Some v \<Rightarrow> v)"

definition merge_margins :: "margins_arg \<Rightarrow> margins \<Rightarrow> margins" where
  "merge_margins a m =
     (let m1 = (if truthy (side a ''top'') then m\<lparr>margin_top := side a ''top''\<rparr> else m);
          m2 = (if truthy (side a ''bottom'')
                then m1\<lparr>margin_bottom := side a ''bottom''\<rparr> else m1);
          m3 = (if truthy (side a ''left'') then m2\<lparr>margin_left := side a ''left''\<rparr> else m2)
      in if truthy (side a ''right'') then m3\<lparr>margin_right := side a ''right''\<rparr> else m3)"

definition setMargins :: "margins_arg \<Rightarrow> pyramid \<times> world \<Rightarrow> outcome \<times> pyramid \<times> world" where
  "setMargins margins_arg s =
     (case s of (self, w) \<Rightarrow>
        (let w1 = (if \<not> arg_truthy margins_arg
                   then console_error ''No margins have been specified!'' w else w)
         in if nullish margins_arg then (Throw TypeError, self, w1)
            else (Return,
                  self\<lparr>dimensions :=
                         (dimensions self)\<lparr>margins :=
                            merge_margins margins_arg (margins (dimensions self))\<rparr>\<rparr>,
                  w1)))"

section \<open>Layout\<close>

definition setDimensions :: "browser \<Rightarrow> store \<Rightarrow> pyramid \<Rightarrow> pyramid" where
  "setDimensions br h self =
     (let d = dimensions self;
          m = margins d;
          ih = js_sub (js_sub (ToNumber br h (outerHeight d)) (ToNumber br h (margin_top m)))
                      (ToNumber br h (margin_bottom m));
          iw = js_sub (js_sub (ToNumber br h (outerWidth d)) (ToNumber br h (margin_left m)))
                      (ToNumber br h (margin_right m))
      in self\<lparr>dimensions :=
                d\<lparr>innerHeight := Some ih, innerWidth := Some iw,
                  chart := Some \<lparr>chart_width = iw, chart_height = ih\<rparr>\<rparr>\<rparr>)"

text \<open>Reading \<^verbatim>\<open>this.dimensions.chart.width\<close> throws while there is no chart.\<close>

definition calcBaseToHeightRatio :: "pyramid \<Rightarrow> error + jsnum" where
  "calcBaseToHeightRatio self =
     (case chart (dimensions self) of
        None \<Rightarrow> Inl TypeError
      | Some c \<Rightarrow> Inr (js_div (js_div (chart_width c) (Fin 2)) (chart_height c)))"

text \<open>
  \<^verbatim>\<open>generatePoints(arrayIndex, center, sliceHeight)\<close>, on numbers as its documentation
  says. The ratio is whatever the field holds, converted by the multiplication.
\<close>

definition generatePoints ::
  "browser \<Rightarrow> store \<Rightarrow> pyramid \<Rightarrow> jsnum \<Rightarrow> jsnum \<Rightarrow> jsnum \<Rightarrow> point list"
where
  "generatePoints br h self arrayIndex center sliceHeight =
     [\<lparr>pt_x = center, pt_y = Fin 0\<rparr>,
      \<lparr>pt_x = js_sub center
                (js_mul (js_mul (js_add arrayIndex (Fin 1))
                                (ToNumber br h (baseToHeightRatio self)))
                        sliceHeight),
       pt_y = js_mul sliceHeight (js_add arrayIndex (Fin 1))\<rparr>,
      \<lparr>pt_x = js_add center
                (js_mul (js_mul (js_add arrayIndex (Fin 1))
                                (ToNumber br h (baseToHeightRatio self)))
                        sliceHeight),
       pt_y = js_mul sliceHeight (js_add arrayIndex (Fin 1))\<rparr>]"

section \<open>Rendering\<close>

text \<open>
  The step of \<^verbatim>\<open>render\<close> that sets the ratio:
  \<^verbatim>\<open>if (this.autoFit) { this.setRelativeWidth(this.calcBaseToHeightRatio()); }\<close>
\<close>

definition fit_ratio :: "pyramid \<times> world \<Rightarrow> outcome \<times> pyramid \<times> world" where
  "fit_ratio s =
     (case s of (self, w) \<Rightarrow>
        if truthy (autoFit self)
        then (case calcBaseToHeightRatio self of
                Inl e \<Rightarrow> (Throw e, self, w)
              | Inr ratio \<Rightarrow>
                  (case setRelativeWidth (JNum ratio) (self, w) of
                     (self', w') \<Rightarrow> (Return, self', w')))
        else (Return, self, w))"

text \<open>
  The path appended for the datum at index \<open>i\<close> of the \<open>n\<close> bound data, with its \<^verbatim>\<open>d\<close>
  and \<^verbatim>\<open>class\<close> attributes:
  \<^verbatim>\<open>self.generatePoints(reversed.length - i - 1, center, sliceHeight)\<close>.
\<close>

definition slice_path ::
  "browser \<Rightarrow> store \<Rightarrow> pyramid \<Rightarrow> nat \<Rightarrow> jsnum \<Rightarrow> jsnum \<Rightarrow> nat \<Rightarrow> path"
where
  "slice_path br h self n center sliceHeight i =
     \<lparr>path_d = generatePoints br h self
                 (js_sub (js_sub (Fin (of_nat n)) (Fin (of_nat i))) (Fin 1))
                 center sliceHeight,
      path_class = ''slice triangle'',
      path_fill = None\<rparr>"

text \<open>
  The \<^verbatim>\<open>fill\<close> attribute is set last, path by path, by calling \<^verbatim>\<open>self.colorScale(d)\<close>:
  with no path there is no call, and a call of a value that is not a function throws.
\<close>

fun fill_paths :: "jsval \<Rightarrow> path list \<Rightarrow> string list \<Rightarrow> error + path list" where
  "fill_paths scale [] ds = Inr []"
| "fill_paths (JFun f) ps ds =
     Inr (map (\<lambda>(p, d). p\<lparr>path_fill := Some (f, d)\<rparr>) (zip ps ds))"
| "fill_paths scale ps ds = Inl TypeError"

text \<open>
  The text appended for the datum \<open>d\<close> at index \<open>i\<close>:
  \<^verbatim>\<open>y: (reversed.length - i) * sliceHeight - sliceHeight / 2.5\<close>.
\<close>

definition slice_label :: "nat \<Rightarrow> jsnum \<Rightarrow> jsnum \<Rightarrow> nat \<times> string \<Rightarrow> label" where
  "slice_label n center sliceHeight e =
     (case e of (i, d) \<Rightarrow>
        \<lparr>label_text = d,
         label_x = center,
         label_y = js_sub (js_mul (js_sub (Fin (of_nat n)) (Fin (of_nat i))) sliceHeight)
                          (js_div sliceHeight (Fin (5 / 2))),
         label_class = ''pyramid-label''\<rparr>)"

definition append_svg :: "svg \<Rightarrow> world \<Rightarrow> world" where
  "append_svg e w = w\<lparr>svgs := svgs w @ [e]\<rparr>"

text \<open>
  \<^verbatim>\<open>Pyramid.prototype.render\<close>. \<^verbatim>\<open>Array.prototype.reverse\<close> reverses the array that
  \<^verbatim>\<open>this.data\<close> refers to and returns that same array, so \<open>reversed\<close> and
  \<^verbatim>\<open>self.data\<close> are one array afterwards; a value that is not an array has no such
  method. \<^verbatim>\<open>d3.selectAll("." + this.className).empty()\<close> only reports whether the
  selection has no element: it changes nothing and its result is dropped, so the
  step does not appear below. When the call of the colour scale throws, the paths
  are in the document without a \<^verbatim>\<open>fill\<close>, and no label has been appended.
\<close>

definition render :: "browser \<Rightarrow> pyramid \<times> world \<Rightarrow> outcome \<times> pyramid \<times> world" where
  "render br s =
     (case s of (self, w) \<Rightarrow>
        (case data self of
           JArr r \<Rightarrow>
             (let reversed = rev (heap w r);
                  w1 = w\<lparr>heap := (heap w)(r := reversed)\<rparr>;
                  self1 = setDimensions br (heap w1) self;
                  d = dimensions self1;
                  group = \<lparr>canvas_width = innerWidth d,
                           canvas_height = innerHeight d,
                           canvas_translate =
                             (margin_left (margins d), margin_top (margins d)),
                           canvas_class = className self1,
                           canvas_paths = [],
                           canvas_labels = []\<rparr>;
                  element = \<lparr>svg_container = parentContainer self1,
                             svg_class = className self1,
                             svg_width = outerWidth d,
                             svg_height = outerHeight d,
                             svg_canvas = group\<rparr>
              in case chart d of
                   None \<Rightarrow> (Throw TypeError, self1, append_svg element w1)
                 | Some c \<Rightarrow>
                     (let n = length (heap w1 r);
                          center = js_div (chart_width c) (Fin 2);
                          sliceHeight = js_div (chart_height c) (Fin (of_nat n))
                      in case fit_ratio (self1, w1) of
                           (Throw e, self2, w2) \<Rightarrow> (Throw e, self2, append_svg element w2)
                         | (Return, self2, w2) \<Rightarrow>
                             (let paths = map (slice_path br (heap w2) self2 n center sliceHeight)
                                              [0..<n]
                              in case fill_paths (colorScale self2) paths reversed of
                                   Inl e \<Rightarrow>
                                     (Throw e, self2,
                                      append_svg
                                        (element\<lparr>svg_canvas :=
                                                   group\<lparr>canvas_paths := paths\<rparr>\<rparr>) w2)
                                 | Inr filled \<Rightarrow>
                                     (Return, self2,
                                      append_svg
                                        (element\<lparr>svg_canvas :=
                                                   group\<lparr>canvas_paths := filled,
                                                         canvas_labels :=
                                                           map (slice_label n center sliceHeight)
                                                               (zip [0..<n] reversed)\<rparr>\<rparr>)
                                        w2))))
         | _ \<Rightarrow> (Throw TypeError, self, w)))"

section \<open>Calling a method on an instance\<close>

text \<open>
  A call \<^verbatim>\<open>pyramid.name(...)\<close> looks the name up on the instance first and on
  \<^verbatim>\<open>Pyramid.prototype\<close> second. The own properties are the seven fields that the
  constructor assigns; the prototype holds the ten functions of the library.
\<close>

definition prototype_methods :: "string list" where
  "prototype_methods =
     [''setColorScale'', ''setParentContainer'', ''setClassName'', ''setRelativeWidth'',
      ''autoFit'', ''calcBaseToHeightRatio'', ''generatePoints'', ''setMargins'',
      ''setDimensions'', ''render'']"

datatype property = Own jsval | OwnObject | Method string | Absent

text \<open>
  \<open>Absent\<close>: the name is neither on the instance nor on \<^verbatim>\<open>Pyramid.prototype\<close>.
\<close>

definition get_property :: "pyramid \<Rightarrow> string \<Rightarrow> property" where
  "get_property self name =
     (if name = ''data'' then Own (data self)
      else if name = ''baseToHeightRatio'' then Own (baseToHeightRatio self)
      else if name = ''parentContainer'' then Own (parentContainer self)
      else if name = ''dimensions'' then OwnObject
      else if name = ''className'' then Own (className self)
      else if name = ''autoFit'' then Own (autoFit self)
      else if name = ''colorScale'' then Own (colorScale self)
      else if name \<in> set prototype_methods then Method name
      else Absent)"

text \<open>
  The call \<^verbatim>\<open>pyramid.autoFit(flag)\<close>: the function of the prototype runs when the
  lookup reaches it, a value that is not a function cannot be called, and a function
  stored on the instance is foreign code (\<open>Foreign\<close>).
\<close>

datatype call_result = Done "pyramid \<times> world" | Thrown error | Foreign nat

definition call_autoFit :: "jsval \<Rightarrow> pyramid \<times> world \<Rightarrow> call_result" where
  "call_autoFit flag s =
     (case get_property (fst s) ''autoFit'' of
        Method m \<Rightarrow> Done (autoFit_method flag s)
      | Own (JFun f) \<Rightarrow> Foreign f
      | _ \<Rightarrow> Thrown TypeError)"

section \<open>The sample page\<close>

text \<open>
  A document with one element, \<^verbatim>\<open>visualization\<close>, 300 pixels wide and 400 pixels high;
  the conversion of strings is given on the two strings that the page produces.
  The array at reference \<open>0\<close> holds three labels, top down.
\<close>

definition sample_browser :: browser where
  "sample_browser =
     \<lparr>computedStyle =
        (\<lambda>i. if i = ''visualization'' then Some (''400px'', ''300px'') else None),
      stringToNumber =
        (\<lambda>s. if s = ''400'' then Fin 400 else if s = ''300'' then Fin 300 else NaN)\<rparr>"

definition sample_world :: world where
  "sample_world =
     \<lparr>heap = (\<lambda>r. if r = 0 then [''A'', ''B'', ''C''] else []),
      console = [],
      svgs = []\<rparr>"

text \<open>
  The instance that
  \<^verbatim>\<open>new Pyramid(data, "#visualization", "pyramid-2", true)\<close> returns there.
\<close>

definition sample_pyramid :: pyramid where
  "sample_pyramid =
     \<lparr>data = JArr 0,
      baseToHeightRatio = JNum (Fin (3 / 4)),
      parentContainer = JStr ''#visualization'',
      dimensions =
        \<lparr>outerHeight = JStr ''400'', outerWidth = JStr ''300'',
         margins = default_margins,
         innerHeight = None, innerWidth = None, chart = None\<rparr>,
      className = JStr ''pyramid-2'',
      autoFit = JBool True,
      colorScale = category20\<rparr>"

text \<open>
  Two calls of \<^verbatim>\<open>render\<close> in a row on that instance, the second on the state that the
  first leaves.
\<close>

definition first_render :: "outcome \<times> pyramid \<times> world" where
  "first_render = render sample_browser (sample_pyramid, sample_world)"

definition second_render :: "outcome \<times> pyramid \<times> world" where
  "second_render = render sample_browser (snd first_render)"

text \<open>The texts of the labels of an \<^verbatim>\<open>svg\<close> element with their positions, in document order.\<close>

definition texts_at :: "svg \<Rightarrow> (string \<times> jsnum \<times> jsnum) list" where
  "texts_at e =
     map (\<lambda>l. (label_text l, label_x l, label_y l)) (canvas_labels (svg_canvas e))"

section \<open>Facts about the sample page\<close>

lemma sample_construction:
  "Pyramid sample_browser (JArr 0) (JStr ''#visualization'') (JStr ''pyramid-2'') (JBool True)
     Undefined sample_world = (Inr sample_pyramid, sample_world)"
  by (simp add: Pyramid_def sample_browser_def sample_pyramid_def container_id_def string_split_def
      strip_px_def)

lemmas sample_defs =
  sample_pyramid_def sample_world_def sample_browser_def default_margins_def category20_def

lemmas render_defs =
  render_def Let_def fit_ratio_def setRelativeWidth_def append_svg_def console_error_def
  setDimensions_def calcBaseToHeightRatio_def js_sub_def

section \<open>The constructor and a missing argument\<close>

lemma construction_needs_string:
  assumes "\<And>sel. parentContainer_arg \<noteq> JStr sel"
  shows "fst (Pyramid br data_arg parentContainer_arg className_arg autoFit_arg colorScale_arg w)
           = Inl TypeError"
proof (cases parentContainer_arg)
  case (JStr sel)
  with assms show ?thesis by blast
qed (simp_all add: Pyramid_def Let_def)

text \<open>
  Claim C4 says that construction never throws, also without a parent container.
  On the sample page, \<^verbatim>\<open>new Pyramid(data, undefined, "pyramid-2", true)\<close> writes its
  line to the console and then throws a \<^verbatim>\<open>TypeError\<close>, while the same call with the
  container and without the data logs and returns an instance.
\<close>

theorem construction_without_container_throws:
  "Pyramid sample_browser (JArr 0) Undefined (JStr ''pyramid-2'') (JBool True) Undefined
     sample_world =
     (Inl TypeError,
      sample_world\<lparr>console := [''A parent element has not been specified!'']\<rparr>) \<and>
   Pyramid sample_browser Undefined (JStr ''#visualization'') (JStr ''pyramid-2'') (JBool True)
     Undefined sample_world =
     (Inr (sample_pyramid\<lparr>data := Undefined\<rparr>),
      sample_world\<lparr>console := [''We have no data to put into the pyramid!'']\<rparr>)"
  by (simp add: Pyramid_def console_error_def sample_world_def sample_browser_def
      sample_pyramid_def container_id_def string_split_def strip_px_def)

section \<open>The setter of the auto-fit flag\<close>

lemma constructed_autoFit:
  assumes "Pyramid br data_arg parentContainer_arg className_arg autoFit_arg colorScale_arg w
             = (Inr self, w')"
  shows "autoFit self = JBool (\<not> loose_eq_false br (heap w') autoFit_arg)"
  using assms
  by (cases parentContainer_arg)
     (auto simp: Pyramid_def Let_def console_error_def split: option.splits if_splits)

lemma constructed_autoFit_call:
  assumes "Pyramid br data_arg parentContainer_arg className_arg autoFit_arg colorScale_arg w
             = (Inr self, w')"
  shows "call_autoFit flag (self, w') = Thrown TypeError"
  using constructed_autoFit [OF assms] by (simp add: call_autoFit_def get_property_def)

text \<open>
  Claim C9 says that the instance has a working setter of the auto-fit flag. On the
  sample instance the name \<^verbatim>\<open>autoFit\<close> resolves to the boolean that the constructor
  stored, so the call \<^verbatim>\<open>pyramid.autoFit(false)\<close> throws a \<^verbatim>\<open>TypeError\<close> and the flag
  stays \<^verbatim>\<open>true\<close>; there is no property \<^verbatim>\<open>setAutoFit\<close>; the function of the prototype
  would set the flag if the call reached it.
\<close>

theorem autoFit_setter_is_shadowed:
  "get_property sample_pyramid ''autoFit'' = Own (JBool True) \<and>
   call_autoFit (JBool False) (sample_pyramid, sample_world) = Thrown TypeError \<and>
   get_property sample_pyramid ''setAutoFit'' = Absent \<and>
   autoFit (fst (autoFit_method (JBool False) (sample_pyramid, sample_world))) = JBool False"
  by (simp add: call_autoFit_def get_property_def sample_pyramid_def prototype_methods_def
      autoFit_method_def)

section \<open>Setters and falsy arguments\<close>

lemma merge_margins_MVal: "merge_margins (MVal v) m = m"
  by (simp add: merge_margins_def)

text \<open>
  Claim C3, as stated: a setter called with a falsy argument logs an error and leaves
  the stored state as it was. This fails: \<^verbatim>\<open>setColorScale(null)\<close> on the sample
  instance replaces the colour scale by \<^verbatim>\<open>null\<close>.
\<close>

theorem falsy_setter_counterexample:
  "falsy Null \<and>
   colorScale (fst (setColorScale Null (sample_pyramid, sample_world)))
     \<noteq> colorScale sample_pyramid"
  by (simp add: falsy_def setColorScale_def sample_pyramid_def category20_def)

text \<open>
  Claim C3, amended: for every falsy argument, each of \<^verbatim>\<open>setColorScale\<close>,
  \<^verbatim>\<open>setClassName\<close>, \<^verbatim>\<open>setRelativeWidth\<close> and \<^verbatim>\<open>setParentContainer\<close> logs its error and
  then stores the falsy argument in its field, changing nothing else; \<^verbatim>\<open>setMargins\<close>
  logs its error and leaves the whole instance as it was, and it throws a
  \<^verbatim>\<open>TypeError\<close> after the log when the argument is \<^verbatim>\<open>undefined\<close> or \<^verbatim>\<open>null\<close>.
\<close>

theorem falsy_setters_store_argument:
  assumes "falsy v"
  shows "setColorScale v (self, w) =
           (self\<lparr>colorScale := v\<rparr>, console_error ''No color scale has been specified!'' w) \<and>
         setClassName v (self, w) =
           (self\<lparr>className := v\<rparr>, console_error ''No class name has been specified!'' w) \<and>
         setRelativeWidth v (self, w) =
           (self\<lparr>baseToHeightRatio := v\<rparr>,
            console_error ''No relative width has been specified!'' w) \<and>
         setParentContainer v (self, w) =
           (self\<lparr>parentContainer := v\<rparr>,
            console_error ''No parent container element has been specified!'' w) \<and>
         setMargins (MVal v) (self, w) =
           (if nullish (MVal v) then Throw TypeError else Return, self,
            console_error ''No margins have been specified!'' w)"
  using assms
  by (simp add: falsy_def setColorScale_def setClassName_def setRelativeWidth_def
      setParentContainer_def setMargins_def merge_margins_MVal)

theorem falsy_setters_store_argument_witness:
  "falsy (JNum (Fin 0)) \<and>
   baseToHeightRatio (fst (setRelativeWidth (JNum (Fin 0)) (sample_pyramid, sample_world)))
     = JNum (Fin 0) \<and>
   console (snd (setRelativeWidth (JNum (Fin 0)) (sample_pyramid, sample_world)))
     = [''No relative width has been specified!''] \<and>
   setMargins (MVal (JNum (Fin 0))) (sample_pyramid, sample_world) =
     (Return, sample_pyramid,
      sample_world\<lparr>console := [''No margins have been specified!'']\<rparr>)"
proof -
  have f: "falsy (JNum (Fin 0))" by (simp add: falsy_def)
  show ?thesis
    using f falsy_setters_store_argument [OF f, of sample_pyramid sample_world]
    by (simp add: console_error_def sample_world_def)
qed

section \<open>Geometry\<close>





section \<open>Margins\<close>

text \<open>
  Claim C8, as stated: every side named in the argument is updated to the given
  value. This fails for a falsy value: \<^verbatim>\<open>setMargins({left: 0})\<close> on the sample instance
  leaves the left margin at 25.
\<close>

theorem setMargins_zero_counterexample:
  "side (MObj [''left'' \<mapsto> JNum (Fin 0)]) ''left'' = JNum (Fin 0) \<and>
   margin_left (margins (dimensions (fst (snd
     (setMargins (MObj [''left'' \<mapsto> JNum (Fin 0)]) (sample_pyramid, sample_world))))))
     \<noteq> JNum (Fin 0)"
  by (simp add: setMargins_def merge_margins_def sample_pyramid_def default_margins_def)

text \<open>
  Claim C8, amended: for every state of the margins and every margins object,
  \<^verbatim>\<open>setMargins\<close> returns normally, logs nothing and changes only the margins: each
  side that the object names with a truthy value is updated to that value, and each
  side that it does not name, or names with a falsy value, keeps its value. In
  particular \<^verbatim>\<open>setMargins({left: 40})\<close> changes only the left margin.
\<close>

theorem setMargins_merges_truthy_sides:
  "setMargins (MObj sides) (self, w) =
     (Return,
      self\<lparr>dimensions := (dimensions self)\<lparr>margins :=
        \<lparr>margin_top =
           (if truthy (side (MObj sides) ''top'') then side (MObj sides) ''top''
            else margin_top (margins (dimensions self))),
         margin_bottom =
           (if truthy (side (MObj sides) ''bottom'') then side (MObj sides) ''bottom''
            else margin_bottom (margins (dimensions self))),
         margin_left =
           (if truthy (side (MObj sides) ''left'') then side (MObj sides) ''left''
            else margin_left (margins (dimensions self))),
         margin_right =
           (if truthy (side (MObj sides) ''right'') then side (MObj sides) ''right''
            else margin_right (margins (dimensions self)))\<rparr>\<rparr>\<rparr>,
      w) \<and>
   setMargins (MObj [''left'' \<mapsto> JNum (Fin 40)]) (self, w) =
     (Return,
      self\<lparr>dimensions := (dimensions self)\<lparr>margins :=
        (margins (dimensions self))\<lparr>margin_left := JNum (Fin 40)\<rparr>\<rparr>\<rparr>,
      w)"
  by (simp add: setMargins_def merge_margins_def Let_def)

text \<open>
  Claim C10: \<^verbatim>\<open>setMargins\<close> tests each side for truthiness, so for every state of the
  margins and every argument, a side supplied with \<open>0\<close> or any other falsy value
  keeps its value; and no side is ever set to the number \<open>0\<close>: a side that is \<open>0\<close>
  after the call was \<open>0\<close> before it.
\<close>

theorem setMargins_ignores_falsy_sides:
  assumes "setMargins a (self, w) = (res, self', w')"
  shows "(falsy (side a ''top'') \<longrightarrow>
            margin_top (margins (dimensions self')) = margin_top (margins (dimensions self))) \<and>
         (falsy (side a ''bottom'') \<longrightarrow>
            margin_bottom (margins (dimensions self')) =
              margin_bottom (margins (dimensions self))) \<and>
         (falsy (side a ''left'') \<longrightarrow>
            margin_left (margins (dimensions self')) = margin_left (margins (dimensions self))) \<and>
         (falsy (side a ''right'') \<longrightarrow>
            margin_right (margins (dimensions self')) =
              margin_right (margins (dimensions self))) \<and>
         (margin_top (margins (dimensions self')) = JNum (Fin 0) \<longrightarrow>
            margin_top (margins (dimensions self)) = JNum (Fin 0)) \<and>
         (margin_bottom (margins (dimensions self')) = JNum (Fin 0) \<longrightarrow>
            margin_bottom (margins (dimensions self)) = JNum (Fin 0)) \<and>
         (margin_left (margins (dimensions self')) = JNum (Fin 0) \<longrightarrow>
            margin_left (margins (dimensions self)) = JNum (Fin 0)) \<and>
         (margin_right (margins (dimensions self')) = JNum (Fin 0) \<longrightarrow>
            margin_right (margins (dimensions self)) = JNum (Fin 0))"
  using assms
  by (auto simp: setMargins_def merge_margins_def Let_def falsy_def split: if_splits)

theorem setMargins_ignores_falsy_sides_witness:
  "falsy (side (MObj [''left'' \<mapsto> JNum (Fin 0), ''top'' \<mapsto> JNum (Fin 10)]) ''left'') \<and>
   margin_left (margins (dimensions (fst (snd
     (setMargins (MObj [''left'' \<mapsto> JNum (Fin 0), ''top'' \<mapsto> JNum (Fin 10)])
        (sample_pyramid, sample_world)))))) = JNum (Fin 25) \<and>
   margin_top (margins (dimensions (fst (snd
     (setMargins (MObj [''left'' \<mapsto> JNum (Fin 0), ''top'' \<mapsto> JNum (Fin 10)])
        (sample_pyramid, sample_world)))))) = JNum (Fin 10)"
proof -
  let ?a = "MObj [''left'' \<mapsto> JNum (Fin 0), ''top'' \<mapsto> JNum (Fin 10)]"
  let ?out = "setMargins ?a (sample_pyramid, sample_world)"
  have f: "falsy (side ?a ''left'')" by (simp add: falsy_def)
  have o: "?out = (fst ?out, fst (snd ?out), snd (snd ?out))" by simp
  have l: "margin_left (margins (dimensions sample_pyramid)) = JNum (Fin 25)"
    by (simp add: sample_pyramid_def default_margins_def)
  have t: "margin_top (margins (dimensions (fst (snd ?out)))) = JNum (Fin 10)"
    by (simp add: setMargins_def merge_margins_def)
  from setMargins_ignores_falsy_sides [OF o] f l
  have "margin_left (margins (dimensions (fst (snd ?out)))) = JNum (Fin 25)" by simp
  with f t show ?thesis by simp
qed

section \<open>Rendering and the data\<close>

lemma render_heap:
  assumes "data self = JArr r"
  shows "heap (snd (snd (render br (self, w)))) = (heap w)(r := rev (heap w r))"
  using assms
  by (simp add: render_def Let_def fit_ratio_def setRelativeWidth_def append_svg_def
      console_error_def split: option.splits prod.splits outcome.splits sum.splits)

text \<open>
  Claim C1 says that \<^verbatim>\<open>render\<close> leaves the array of the caller in its order. On the
  sample page the array that the caller passed to the constructor holds A, B, C;
  after one \<^verbatim>\<open>render\<close>, which returns normally, that same array holds C, B, A.
\<close>

theorem render_reverses_callers_array:
  "data sample_pyramid = JArr 0 \<and>
   heap sample_world 0 = [''A'', ''B'', ''C''] \<and>
   fst first_render = Return \<and>
   heap (snd (snd first_render)) 0 = [''C'', ''B'', ''A'']"
  by (simp add: first_render_def render_defs sample_defs)

lemma render_appends:
  assumes "data self = JArr r"
  shows "\<exists>e. svgs (snd (snd (render br (self, w)))) = svgs w @ [e]"
  using assms
  by (simp add: render_def Let_def fit_ratio_def setRelativeWidth_def append_svg_def
      console_error_def split: option.splits prod.splits outcome.splits sum.splits)

text \<open>
  Claim C2 says that a second \<^verbatim>\<open>render\<close> draws what the first drew and that no shapes
  accumulate. On the sample page both calls return normally; after the second the
  document holds two \<^verbatim>\<open>svg\<close> elements of the class of the instance, the first still
  in place, and the labels of the second sit at other heights than those of the
  first: A at the bottom and C at the top.
\<close>

theorem render_twice_accumulates:
  "fst first_render = Return \<and> fst second_render = Return \<and>
   map svg_class (svgs (snd (snd first_render))) = [JStr ''pyramid-2''] \<and>
   map svg_class (svgs (snd (snd second_render))) = [JStr ''pyramid-2'', JStr ''pyramid-2''] \<and>
   map texts_at (svgs (snd (snd second_render))) =
     [[(''C'', Fin 125, Fin (910 / 3)), (''B'', Fin 125, Fin (560 / 3)), (''A'', Fin 125, Fin 70)],
      [(''A'', Fin 125, Fin (910 / 3)), (''B'', Fin 125, Fin (560 / 3)), (''C'', Fin 125, Fin 70)]]"
  by (simp add: first_render_def second_render_def texts_at_def render_defs sample_defs
      slice_path_def slice_label_def generatePoints_def upt_rec)

section \<open>Rendering with auto-fit\<close>








end
